theory Spec2Isabelle
  imports Main "HOL-Library.List_Lexorder" "HOL-Library.Option_ord" "HOL-Library.Multiset"
    "HOL-Library.Code_Target_Nat"
begin

section \<open>Python values used by the CRM schema\<close>

text \<open>
  Exceptions that can leave a resolver. \<open>DoesNotExist\<close> is raised by
  \<^verbatim>\<open>Customer.objects.get\<close>, \<open>ValueError\<close> by \<^verbatim>\<open>int(...)\<close>, by the primary-key
  lookups on a malformed identifier and by a many-to-many manager of an instance
  without primary key, \<open>OverflowError\<close> by the SQLite driver when it is handed an
  integer outside the signed 64-bit range, \<open>OperationalError\<close> by SQLite for a
  statement with too many parameters, \<open>IntegrityError\<close> by the \<^verbatim>\<open>unique=True\<close>
  column of \<^verbatim>\<open>Customer.email\<close>, \<open>FieldError\<close> by \<^verbatim>\<open>order_by\<close> on a name that is no
  field of the model, \<open>DatabaseError\<close> by a \<^verbatim>\<open>save(update_fields=...)\<close> that touches
  no row.
\<close>

datatype error =
  ValueError | OverflowError | OperationalError | DoesNotExist | IntegrityError | FieldError
  | DatabaseError

text \<open>
  A Python \<^verbatim>\<open>str\<close> is a sequence of Unicode code points. \<open>ustr\<close> writes one from an
  ASCII literal. The messages that the resolvers build are ASCII text assembled
  from literals and from \<^verbatim>\<open>str(n)\<close>; they are kept as HOL strings.
\<close>

type_synonym pystr = "nat list"

definition ustr :: "string \<Rightarrow> pystr" where
  "ustr s = map of_char s"

definition chr_plus :: nat where
  "chr_plus = of_char CHR ''+''"

definition chr_hyphen :: nat where
  "chr_hyphen = of_char CHR ''-''"

definition chr_underscore :: nat where
  "chr_underscore = of_char CHR ''_''"

definition chr_newline :: nat where
  "chr_newline = of_char (CHR 0x0A)"

text \<open>
  The decimal digits of Unicode (general category Nd; Unicode 14.0, the database of
  Python 3.11) come in runs of ten consecutive code points, zero to nine. These are
  the zeros: ASCII, Arabic-Indic, ..., fullwidth (65296), ..., the mathematical
  digits. \<^verbatim>\<open>\d\<close> of a \<^verbatim>\<open>str\<close> pattern and \<^verbatim>\<open>int\<close> accept all of them.
\<close>

definition unicode_zeros :: "nat list" where
  "unicode_zeros =
     [48, 1632, 1776, 1984, 2406, 2534, 2662, 2790, 2918, 3046, 3174, 3302, 3430, 3558,
      3664, 3792, 3872, 4160, 4240, 6112, 6160, 6470, 6608, 6784, 6800, 6992, 7088, 7232,
      7248, 42528, 43216, 43264, 43472, 43504, 43600, 44016, 65296, 66720, 68912, 69734,
      69872, 69942, 70096, 70384, 70736, 70864, 71248, 71360, 71472, 71904, 72016, 72784,
      73040, 73120, 92768, 92864, 93008, 120782, 120792, 120802, 120812, 120822, 123200,
      123632, 125264, 130032]"

definition is_digit :: "nat \<Rightarrow> bool" where
  "is_digit c = (\<exists>z \<in> set unicode_zeros. z \<le> c \<and> c < z + 10)"

definition digit_val :: "nat \<Rightarrow> nat" where
  "digit_val c =
     (case find (\<lambda>z. z \<le> c \<and> c < z + 10) unicode_zeros of None \<Rightarrow> 0 | Some z \<Rightarrow> c - z)"

text \<open>
  The whitespace that \<^verbatim>\<open>int\<close> strips from a \<^verbatim>\<open>str\<close>: the six ASCII characters of C's
  \<^verbatim>\<open>isspace\<close>, and the Unicode spaces beyond ASCII. The separators 0x1C to 0x1F are
  not stripped.
\<close>

definition py_isspace :: "nat \<Rightarrow> bool" where
  "py_isspace c =
     (c \<in> set [0x09, 0x0A, 0x0B, 0x0C, 0x0D, 0x20, 0x85, 0xA0, 0x1680,
                0x2000, 0x2001, 0x2002, 0x2003, 0x2004, 0x2005, 0x2006, 0x2007, 0x2008,
                0x2009, 0x200A, 0x2028, 0x2029, 0x202F, 0x205F, 0x3000])"

definition py_strip :: "pystr \<Rightarrow> pystr" where
  "py_strip s = rev (dropWhile py_isspace (rev (dropWhile py_isspace s)))"

text \<open>
  The digits of an integer literal after its first digit: digits, with single
  underscores allowed between two digits (\<^verbatim>\<open>int("1_000") == 1000\<close>).
\<close>

fun py_digits :: "nat \<Rightarrow> pystr \<Rightarrow> nat option" where
  "py_digits acc [] = Some acc"
| "py_digits acc [c] = (if is_digit c then Some (10 * acc + digit_val c) else None)"
| "py_digits acc (c # d # ds) =
     (if is_digit c then py_digits (10 * acc + digit_val c) (d # ds)
      else if c = chr_underscore \<and> is_digit d then py_digits (10 * acc + digit_val d) ds
      else None)"

text \<open>
  \<^verbatim>\<open>int\<close> refuses a literal of more than 4300 digits (the default of
  \<^verbatim>\<open>sys.int_max_str_digits\<close>; underscores do not count, leading zeros do).
\<close>

definition int_max_str_digits :: nat where
  "int_max_str_digits = 4300"

definition py_nat_literal :: "pystr \<Rightarrow> nat option" where
  "py_nat_literal s =
     (if int_max_str_digits < length (filter is_digit s) then None
      else (case s of [] \<Rightarrow> None
            | c # cs \<Rightarrow> if is_digit c then py_digits (digit_val c) cs else None))"

text \<open>
  \<^verbatim>\<open>int(s)\<close> on a string: surrounding whitespace is stripped, one ASCII sign is
  allowed, anything else raises \<open>ValueError\<close> (the value \<open>None\<close> here).
\<close>

definition py_int :: "pystr \<Rightarrow> int option" where
  "py_int s =
     (case py_strip s of [] \<Rightarrow> None
      | c # cs \<Rightarrow>
          if c = chr_hyphen then map_option (\<lambda>n. - int n) (py_nat_literal cs)
          else if c = chr_plus then map_option int (py_nat_literal cs)
          else map_option int (py_nat_literal (c # cs)))"

text \<open>\<^verbatim>\<open>map(int, xs)\<close>, consumed by \<^verbatim>\<open>set(...)\<close>: the first malformed element raises.\<close>

fun map_int :: "pystr list \<Rightarrow> error + int list" where
  "map_int [] = Inr []"
| "map_int (x # xs) =
     (case py_int x of None \<Rightarrow> Inl ValueError
      | Some i \<Rightarrow> (case map_int xs of Inl e \<Rightarrow> Inl e | Inr is \<Rightarrow> Inr (i # is)))"

text \<open>\<^verbatim>\<open>str(n)\<close> for an integer: decimal digits, a minus sign when negative.\<close>

fun digits_nat :: "nat \<Rightarrow> string" where
  "digits_nat n =
     (if n < 10 then [char_of (48 + n)]
      else digits_nat (n div 10) @ [char_of (48 + n mod 10)])"

declare digits_nat.simps [simp del]

definition py_str :: "int \<Rightarrow> string" where
  "py_str i = (if i < 0 then CHR ''-'' # digits_nat (nat (- i)) else digits_nat (nat i))"

text \<open>\<^verbatim>\<open>sep.join(xs)\<close>.\<close>

fun join :: "string \<Rightarrow> string list \<Rightarrow> string" where
  "join sep [] = []"
| "join sep [x] = x"
| "join sep (x # y # ys) = x @ sep @ join sep (y # ys)"

text \<open>
  The integers that SQLite stores and that its driver binds as a parameter: the
  signed 64-bit range. Outside it the driver raises \<open>OverflowError\<close>.
\<close>

definition sqlite_integer :: "int \<Rightarrow> bool" where
  "sqlite_integer i = (- (2 ^ 63) \<le> i \<and> i < 2 ^ 63)"

text \<open>
  The number of parameters SQLite admits in one statement (its default since
  version 3.32); a statement with more is refused with \<open>OperationalError\<close> when it is
  prepared, before any parameter is bound.
\<close>

definition sqlite_max_variable_number :: nat where
  "sqlite_max_variable_number = 32766"

section \<open>The phone pattern\<close>

text \<open>
  \<^verbatim>\<open>PHONE_REGEX = re.compile(r"^(\+?\d[\d\-]{6,}\d)$")\<close> is a sequence of quantified
  character classes between the two anchors. An item is a class with the least and
  the greatest number of repetitions (\<open>None\<close>: unbounded). \<open>rx_match\<close> tries every
  admissible repetition count, as the backtracking matcher does; at the end of the
  items the anchor \<^verbatim>\<open>$\<close> accepts the end of the string and also the position just
  before a final newline.
\<close>

type_synonym rx_item = "(nat \<Rightarrow> bool) \<times> nat \<times> nat option"

fun rx_match :: "rx_item list \<Rightarrow> pystr \<Rightarrow> bool" where
  "rx_match [] s = (s = [] \<or> s = [chr_newline])"
| "rx_match ((p, lo, hi) # its) s =
     (\<exists>k \<in> set [lo ..< Suc (length s)].
        (case hi of None \<Rightarrow> True | Some h \<Rightarrow> k \<le> h) \<and>
        (\<forall>c \<in> set (take k s). p c) \<and> rx_match its (drop k s))"

declare rx_match.simps(2) [simp del]

definition PHONE_REGEX :: "rx_item list" where
  "PHONE_REGEX =
     [(\<lambda>c. c = chr_plus, 0, Some 1),
      (is_digit, 1, Some 1),
      (\<lambda>c. is_digit c \<or> c = chr_hyphen, 6, None),
      (is_digit, 1, Some 1)]"

text \<open>\<^verbatim>\<open>PHONE_REGEX.match(s)\<close> as a truth value (\<^verbatim>\<open>match\<close> starts at position 0).\<close>

definition PHONE_REGEX_match :: "pystr \<Rightarrow> bool" where
  "PHONE_REGEX_match s = rx_match PHONE_REGEX s"

text \<open>
  The guard \<^verbatim>\<open>input.phone and not PHONE_REGEX.match(input.phone)\<close> of
  \<^verbatim>\<open>CreateCustomer.mutate\<close> and of each row of \<^verbatim>\<open>BulkCreateCustomers.mutate\<close>:
  \<open>None\<close> and the empty string are falsy.
\<close>

definition phone_rejected :: "pystr option \<Rightarrow> bool" where
  "phone_rejected phone =
     (case phone of None \<Rightarrow> False | Some s \<Rightarrow> s \<noteq> [] \<and> \<not> PHONE_REGEX_match s)"


section \<open>The tables of \<^verbatim>\<open>models.py\<close>\<close>

text \<open>
  Timestamps are points of a clock (\<open>nat\<close>). A price or an amount is a
  \<^verbatim>\<open>DecimalField(max_digits=10, decimal_places=2)\<close>: it is kept as the integer number
  of hundredths, so \<open>1550\<close> is 15.50 and sums are exact.

  What the store enforces is what \<^verbatim>\<open>models.py\<close> declares as constraints: the primary
  keys and \<^verbatim>\<open>unique=True\<close> on \<^verbatim>\<open>Customer.email\<close>. The store is SQLite, the backend of
  a fresh Django project: a key handed to a query must be a 64-bit integer, a
  statement takes a bounded number of parameters, the primary-key sequences are
  \<^verbatim>\<open>AUTOINCREMENT\<close>, and \<^verbatim>\<open>max_length\<close> is not enforced on write (\<^verbatim>\<open>save\<close> runs no
  validators, and SQLite stores text of any length).
\<close>

record customer =
  c_id :: int
  c_name :: pystr
  c_email :: pystr
  c_phone :: "pystr option"
  c_created_at :: nat

record product =
  p_id :: int
  p_name :: pystr
  p_price :: int
  p_stock :: nat

text \<open>An \<^verbatim>\<open>Order\<close> instance; \<open>o_id\<close> is \<open>None\<close> until the row has been inserted.\<close>

record order =
  o_id :: "int option"
  o_customer :: int
  o_total_amount :: int
  o_order_date :: nat

text \<open>
  The database: the three tables in row order, the association table of
  \<^verbatim>\<open>Order.products\<close> as a set of (order id, product id) pairs, the next values of
  the two primary-key sequences used here, and the clock read by
  \<^verbatim>\<open>timezone.now()\<close> and by the \<^verbatim>\<open>auto_now_add\<close> columns.
\<close>

record db =
  customers :: "customer list"
  products :: "product list"
  orders :: "order list"
  order_products :: "(int \<times> int) set"
  customer_seq :: int
  order_seq :: int
  clock :: nat

subsection \<open>Customer manager\<close>

text \<open>\<^verbatim>\<open>Customer.objects.filter(email=e).exists()\<close>: exact match on the stored text.\<close>

definition Customer_email_exists :: "db \<Rightarrow> pystr \<Rightarrow> bool" where
  "Customer_email_exists st e = (\<exists>c \<in> set (customers st). c_email c = e)"

text \<open>
  \<^verbatim>\<open>Customer.objects.get(pk=customer_id)\<close> with a GraphQL ID, which is a string: the
  primary-key field converts it with \<^verbatim>\<open>int\<close>, and the driver binds the integer.
\<close>

definition Customer_objects_get :: "db \<Rightarrow> pystr \<Rightarrow> error + customer" where
  "Customer_objects_get st pk =
     (case py_int pk of None \<Rightarrow> Inl ValueError
      | Some i \<Rightarrow>
          if \<not> sqlite_integer i then Inl OverflowError
          else (case find (\<lambda>c. c_id c = i) (customers st) of
                  None \<Rightarrow> Inl DoesNotExist
                | Some c \<Rightarrow> Inr c))"

text \<open>
  A key from an \<^verbatim>\<open>AUTOINCREMENT\<close> sequence: \<open>seq\<close> is the next value of the sequence;
  the key is never below it and is larger than every key in the table.
\<close>

definition next_key :: "int \<Rightarrow> int list \<Rightarrow> int" where
  "next_key seq keys = fold max (map (\<lambda>k. k + 1) keys) seq"

text \<open>
  The insert of a customer row: primary key from the sequence, \<^verbatim>\<open>created_at\<close>
  from the clock (\<^verbatim>\<open>auto_now_add=True\<close>).
\<close>

definition Customer_insert :: "db \<Rightarrow> pystr \<Rightarrow> pystr \<Rightarrow> pystr option \<Rightarrow> db \<times> customer" where
  "Customer_insert st name email phone =
     (let pk = next_key (customer_seq st) (map c_id (customers st));
          c = \<lparr>c_id = pk, c_name = name, c_email = email, c_phone = phone,
               c_created_at = clock st\<rparr>
      in (st\<lparr>customers := customers st @ [c], customer_seq := pk + 1\<rparr>, c))"

text \<open>
  \<^verbatim>\<open>Customer.objects.create(...)\<close> and \<^verbatim>\<open>Customer(...).save()\<close>: the column
  \<^verbatim>\<open>email = models.EmailField(unique=True)\<close> rejects a second row with the same
  email. \<^verbatim>\<open>save\<close> runs no field validators.
\<close>

definition Customer_save :: "db \<Rightarrow> pystr \<Rightarrow> pystr \<Rightarrow> pystr option \<Rightarrow> error + db \<times> customer" where
  "Customer_save st name email phone =
     (if Customer_email_exists st email then Inl IntegrityError
      else Inr (Customer_insert st name email phone))"

subsection \<open>Product manager\<close>

text \<open>
  \<^verbatim>\<open>list(Product.objects.filter(pk__in=product_ids))\<close>: every identifier is converted
  with \<^verbatim>\<open>int\<close>, and the distinct values become the parameters of one query; the
  rows whose key is among them are returned, each row once.
\<close>

definition Product_filter_pk_in :: "db \<Rightarrow> pystr list \<Rightarrow> error + product list" where
  "Product_filter_pk_in st product_ids =
     (case map_int product_ids of Inl e \<Rightarrow> Inl e
      | Inr ids \<Rightarrow>
          if sqlite_max_variable_number < length (remdups ids) then Inl OperationalError
          else if list_all sqlite_integer ids
          then Inr (filter (\<lambda>p. p_id p \<in> set ids) (products st))
          else Inl OverflowError)"

subsection \<open>Order model\<close>

text \<open>
  \<^verbatim>\<open>self.products\<close>: the many-to-many manager of an order. Django builds it from the
  primary key of the instance and raises \<open>ValueError\<close> (its message: needs to have a value for
  field "id" before this many-to-many relationship can be used) when the instance
  has none.
\<close>

definition Order_products_manager :: "order \<Rightarrow> error + int" where
  "Order_products_manager self = (case o_id self of None \<Rightarrow> Inl ValueError | Some i \<Rightarrow> Inr i)"

text \<open>\<^verbatim>\<open>self.products.all()\<close>.\<close>

definition Order_products_all :: "db \<Rightarrow> order \<Rightarrow> error + product list" where
  "Order_products_all st self =
     (case Order_products_manager self of Inl e \<Rightarrow> Inl e
      | Inr i \<Rightarrow> Inr (filter (\<lambda>p. (i, p_id p) \<in> order_products st) (products st)))"

text \<open>
  \<^verbatim>\<open>order.products.set(products)\<close>: afterwards the association rows of the order are
  exactly one row per given product.
\<close>

definition Order_products_set :: "db \<Rightarrow> order \<Rightarrow> product list \<Rightarrow> error + db" where
  "Order_products_set st self ps =
     (case Order_products_manager self of Inl e \<Rightarrow> Inl e
      | Inr i \<Rightarrow>
          Inr (st\<lparr>order_products :=
                 {r \<in> order_products st. fst r \<noteq> i} \<union> (\<lambda>p. (i, p_id p)) ` set ps\<rparr>))"

text \<open>
  The two ways \<^verbatim>\<open>schema.py\<close> calls \<^verbatim>\<open>save\<close> on an order:
  \<^verbatim>\<open>Order.objects.create(...)\<close> saves with \<^verbatim>\<open>force_insert=True\<close>, and
  \<^verbatim>\<open>order.save(update_fields=["total_amount"])\<close>.
\<close>

datatype save_kwargs = force_insert | update_fields_total_amount

text \<open>
  \<^verbatim>\<open>models.Model.save\<close> for an order. An insert takes the key from the sequence when
  the instance has none, and \<^verbatim>\<open>order_date = models.DateTimeField(auto_now_add=True)\<close>
  is set from the clock on every insert, whatever value the instance carries. An
  insert with a key of its own moves the sequence past that key. An update of
  \<^verbatim>\<open>total_amount\<close> needs a key and a row with that key.
\<close>

definition Model_save :: "db \<Rightarrow> order \<Rightarrow> save_kwargs \<Rightarrow> error + db \<times> order" where
  "Model_save st self kw =
     (case kw of
        force_insert \<Rightarrow>
          (let pk = (case o_id self of
                       None \<Rightarrow> next_key (order_seq st) (List.map_filter o_id (orders st))
                     | Some i \<Rightarrow> i);
               row = self\<lparr>o_id := Some pk, o_order_date := clock st\<rparr>
           in if \<exists>r \<in> set (orders st). o_id r = Some pk then Inl IntegrityError
              else Inr (st\<lparr>orders := orders st @ [row],
                           order_seq := max (order_seq st) (pk + 1)\<rparr>, row))
      | update_fields_total_amount \<Rightarrow>
          (case o_id self of None \<Rightarrow> Inl ValueError
           | Some i \<Rightarrow>
               if \<exists>r \<in> set (orders st). o_id r = Some i
               then Inr (st\<lparr>orders :=
                             map (\<lambda>r. if o_id r = Some i
                                       then r\<lparr>o_total_amount := o_total_amount self\<rparr> else r)
                                 (orders st)\<rparr>, self)
               else Inl DatabaseError))"

text \<open>
  \<^verbatim>\<open>Order.save\<close> of \<^verbatim>\<open>models.py\<close>: when the instance has no key (\<^verbatim>\<open>not self.pk\<close>, also
  true of the key 0) it sums the prices of \<^verbatim>\<open>self.products.all()\<close> into
  \<^verbatim>\<open>total_amount\<close> before it calls the inherited \<^verbatim>\<open>save\<close>.
\<close>

definition Order_save :: "db \<Rightarrow> order \<Rightarrow> save_kwargs \<Rightarrow> error + db \<times> order" where
  "Order_save st self kw =
     (if o_id self = None \<or> o_id self = Some 0
      then (case Order_products_all st self of Inl e \<Rightarrow> Inl e
            | Inr ps \<Rightarrow> Model_save st (self\<lparr>o_total_amount := sum_list (map p_price ps)\<rparr>) kw)
      else Model_save st self kw)"

text \<open>
  \<^verbatim>\<open>Order.objects.create(customer=customer, order_date=order_date)\<close>: a new instance
  without key, \<^verbatim>\<open>total_amount\<close> at its default 0, saved with \<^verbatim>\<open>force_insert\<close>.
\<close>

definition Order_objects_create :: "db \<Rightarrow> customer \<Rightarrow> nat \<Rightarrow> error + db \<times> order" where
  "Order_objects_create st cust order_date =
     Order_save st \<lparr>o_id = None, o_customer = c_id cust, o_total_amount = 0,
                    o_order_date = order_date\<rparr> force_insert"

section \<open>The mutations of \<^verbatim>\<open>schema.py\<close>\<close>

record CustomerInput =
  in_name :: pystr
  in_email :: pystr
  in_phone :: "pystr option"

record CreateCustomerPayload =
  cc_customer :: "customer option"
  cc_message :: "string option"
  cc_errors :: "string list"

record BulkCreateCustomersPayload =
  bulk_customers :: "customer list"
  bulk_errors :: "string list"

record CreateOrderPayload =
  co_order :: "order option"
  co_errors :: "string list"

text \<open>\<^verbatim>\<open>input.phone or ""\<close>.\<close>

definition phone_or_empty :: "pystr option \<Rightarrow> pystr" where
  "phone_or_empty phone = (case phone of None \<Rightarrow> [] | Some s \<Rightarrow> s)"

subsection \<open>\<^verbatim>\<open>CreateCustomer.mutate\<close>\<close>

text \<open>
  The resolver runs in autocommit mode: between the existence query (line 74) and
  the insert (line 81) it holds neither a transaction nor a lock, so rows committed
  by other requests in between are in the table when the insert runs.
  \<open>concurrent\<close> is the list of those rows; it is empty when the call runs alone.
  An exception leaves the resolver as \<open>Inl\<close>; nothing has been written then.
\<close>

definition CreateCustomer_mutate_with ::
    "customer list \<Rightarrow> db \<Rightarrow> CustomerInput \<Rightarrow> error + db \<times> CreateCustomerPayload" where
  "CreateCustomer_mutate_with concurrent st input =
     (let errs = (if Customer_email_exists st (in_email input)
                  then [''Email already exists''] else []) @
                 (if phone_rejected (in_phone input)
                  then [''Invalid phone format''] else [])
      in if errs \<noteq> []
         then Inr (st, \<lparr>cc_customer = None, cc_message = None, cc_errors = errs\<rparr>)
         else (case Customer_save (st\<lparr>customers := customers st @ concurrent\<rparr>)
                      (in_name input) (in_email input) (Some (phone_or_empty (in_phone input))) of
                 Inl e \<Rightarrow> Inl e
               | Inr (st', c) \<Rightarrow>
                   Inr (st', \<lparr>cc_customer = Some c, cc_message = Some ''Customer created'',
                              cc_errors = []\<rparr>)))"

definition CreateCustomer_mutate :: "db \<Rightarrow> CustomerInput \<Rightarrow> error + db \<times> CreateCustomerPayload" where
  "CreateCustomer_mutate st input = CreateCustomer_mutate_with [] st input"

subsection \<open>\<^verbatim>\<open>BulkCreateCustomers.mutate\<close>\<close>

text \<open>The list \<^verbatim>\<open>errs\<close> of one iteration, for the row \<open>item\<close> with 1-based index \<open>idx\<close>.\<close>

definition row_errs :: "db \<Rightarrow> nat \<Rightarrow> CustomerInput \<Rightarrow> string list" where
  "row_errs st idx item =
     (if Customer_email_exists st (in_email item)
      then [''Row '' @ py_str (int idx) @ '': Email already exists''] else []) @
     (if phone_rejected (in_phone item)
      then [''Row '' @ py_str (int idx) @ '': Invalid phone format''] else []) @
     (if in_name item = [] then [''Row '' @ py_str (int idx) @ '': Name is required''] else []) @
     (if in_email item = [] then [''Row '' @ py_str (int idx) @ '': Email is required''] else [])"

text \<open>
  The loop \<^verbatim>\<open>for idx, item in enumerate(input, start=1)\<close> with its two accumulators.
  All iterations run on one connection inside \<^verbatim>\<open>transaction.atomic()\<close>, so each
  existence query sees the rows saved by the iterations before it.
\<close>

fun bulk_loop ::
    "db \<Rightarrow> nat \<Rightarrow> CustomerInput list \<Rightarrow> customer list \<Rightarrow> string list \<Rightarrow>
     error + db \<times> customer list \<times> string list" where
  "bulk_loop st idx [] created errors = Inr (st, created, errors)"
| "bulk_loop st idx (item # rest) created errors =
     (let errs = row_errs st idx item
      in if errs \<noteq> [] then bulk_loop st (idx + 1) rest created (errors @ errs)
         else (case Customer_save st (in_name item) (in_email item)
                      (Some (phone_or_empty (in_phone item))) of
                 Inl e \<Rightarrow> Inl e
               | Inr (st', c) \<Rightarrow> bulk_loop st' (idx + 1) rest (created @ [c]) errors))"

definition BulkCreateCustomers_mutate ::
    "db \<Rightarrow> CustomerInput list \<Rightarrow> error + db \<times> BulkCreateCustomersPayload" where
  "BulkCreateCustomers_mutate st input =
     (case bulk_loop st 1 input [] [] of
        Inl e \<Rightarrow> Inl e
      | Inr (st', created, errors) \<Rightarrow>
          Inr (st', \<lparr>bulk_customers = created, bulk_errors = errors\<rparr>))"

text \<open>
  The value of \<^verbatim>\<open>errs\<close> in each iteration of the loop, in input order: the store of
  an iteration is the store left by the one before it. A row is written exactly
  when its entry is empty.
\<close>

fun bulk_row_errs :: "db \<Rightarrow> nat \<Rightarrow> CustomerInput list \<Rightarrow> string list list" where
  "bulk_row_errs st idx [] = []"
| "bulk_row_errs st idx (item # rest) =
     (let errs = row_errs st idx item
      in errs #
         bulk_row_errs
           (if errs \<noteq> [] then st
            else fst (Customer_insert st (in_name item) (in_email item)
                        (Some (phone_or_empty (in_phone item)))))
           (idx + 1) rest)"

subsection \<open>\<^verbatim>\<open>CreateOrder.mutate\<close>\<close>

text \<open>
  Lines 171 to 175, after the order row exists: the association rows, the total of
  the prices of \<^verbatim>\<open>products\<close>, and the save of the total.
\<close>

definition CreateOrder_after_create :: "db \<Rightarrow> order \<Rightarrow> product list \<Rightarrow> error + db \<times> order" where
  "CreateOrder_after_create st ord ps =
     (case Order_products_set st ord ps of Inl e \<Rightarrow> Inl e
      | Inr st' \<Rightarrow>
          Order_save st' (ord\<lparr>o_total_amount := sum_list (map p_price ps)\<rparr>)
            update_fields_total_amount)"

text \<open>The block under \<^verbatim>\<open>transaction.atomic()\<close>: an exception rolls every write back.\<close>

definition CreateOrder_atomic :: "db \<Rightarrow> customer \<Rightarrow> product list \<Rightarrow> nat \<Rightarrow> error + db \<times> order" where
  "CreateOrder_atomic st cust ps order_date =
     (case Order_objects_create st cust order_date of Inl e \<Rightarrow> Inl e
      | Inr (st', ord) \<Rightarrow> CreateOrder_after_create st' ord ps)"

text \<open>
  The resolver. The identifiers are GraphQL IDs, hence strings (a null element of
  the list is outside this type); \<open>order_date\<close> is \<open>None\<close> when the argument is absent.
  Only \<^verbatim>\<open>Customer.DoesNotExist\<close> is caught.
\<close>

definition CreateOrder_mutate ::
    "db \<Rightarrow> pystr \<Rightarrow> pystr list \<Rightarrow> nat option \<Rightarrow> error + db \<times> CreateOrderPayload" where
  "CreateOrder_mutate st customer_id product_ids order_date =
     (case Customer_objects_get st customer_id of
        Inl e \<Rightarrow>
          if e = DoesNotExist
          then Inr (st, \<lparr>co_order = None, co_errors = [''Invalid customer ID'']\<rparr>)
          else Inl e
      | Inr cust \<Rightarrow>
          if product_ids = []
          then Inr (st, \<lparr>co_order = None,
                         co_errors = [''At least one product must be provided'']\<rparr>)
          else
            (case Product_filter_pk_in st product_ids of Inl e \<Rightarrow> Inl e
             | Inr ps \<Rightarrow>
                 (case map_int product_ids of Inl e \<Rightarrow> Inl e
                  | Inr ids \<Rightarrow>
                      (let missing = set ids - set (map p_id ps)
                       in if missing \<noteq> {}
                          then Inr (st, \<lparr>co_order = None,
                                         co_errors = [''Invalid product ID(s): '' @
                                           join '', '' (map py_str (sorted_list_of_set missing))]\<rparr>)
                          else
                            (case CreateOrder_atomic st cust ps
                                    (case order_date of None \<Rightarrow> clock st | Some d \<Rightarrow> d) of
                               Inl e \<Rightarrow> Inl e
                             | Inr (st', ord) \<Rightarrow>
                                 Inr (st', \<lparr>co_order = Some ord, co_errors = []\<rparr>))))))"

section \<open>The queries of \<^verbatim>\<open>schema.py\<close>\<close>

definition ALLOWED_CUSTOMER_ORDER_FIELDS :: "pystr list" where
  "ALLOWED_CUSTOMER_ORDER_FIELDS =
     map ustr [''name'', ''-name'', ''email'', ''-email'', ''created_at'', ''-created_at'']"

definition ALLOWED_PRODUCT_ORDER_FIELDS :: "pystr list" where
  "ALLOWED_PRODUCT_ORDER_FIELDS =
     map ustr [''name'', ''-name'', ''price'', ''-price'', ''stock'', ''-stock'',
               ''created_at'', ''-created_at'']"

definition ALLOWED_ORDER_ORDER_FIELDS :: "pystr list" where
  "ALLOWED_ORDER_ORDER_FIELDS =
     map ustr [''order_date'', ''-order_date'', ''total_amount'', ''-total_amount'',
               ''created_at'', ''-created_at'']"

text \<open>
  \<^verbatim>\<open>qs.order_by(item)\<close> for one item: a leading \<^verbatim>\<open>-\<close> asks for descending order, the
  rest names a field. A query set is the list of rows it yields. Rows with equal
  keys stay in table order, ascending and descending, as SQLite leaves them;
  \<^verbatim>\<open>distinct()\<close> keeps the first of equal rows.
\<close>

definition descending :: "pystr \<Rightarrow> bool" where
  "descending item = (case item of [] \<Rightarrow> False | c # _ \<Rightarrow> c = chr_hyphen)"

definition field_name :: "pystr \<Rightarrow> pystr" where
  "field_name item = (if descending item then tl item else item)"

definition ordered :: "bool \<Rightarrow> ('a \<Rightarrow> 'k::linorder) \<Rightarrow> 'a list \<Rightarrow> 'a list" where
  "ordered desc key qs = (if desc then rev (sort_key key (rev qs)) else sort_key key qs)"

text \<open>
  The name is resolved against the columns that \<^verbatim>\<open>models.py\<close> declares for the
  model (and \<^verbatim>\<open>pk\<close>, \<^verbatim>\<open>id\<close>); a name that is no field raises \<open>FieldError\<close>. The
  resolvers pass allow-listed names only, so names that span a relation are not
  modelled.
\<close>

definition Customer_order_by :: "pystr \<Rightarrow> customer list \<Rightarrow> error + customer list" where
  "Customer_order_by item qs =
     (let d = descending item; f = field_name item
      in if f = ustr ''name'' then Inr (ordered d c_name qs)
         else if f = ustr ''email'' then Inr (ordered d c_email qs)
         else if f = ustr ''phone'' then Inr (ordered d c_phone qs)
         else if f = ustr ''created_at'' then Inr (ordered d c_created_at qs)
         else if f = ustr ''id'' \<or> f = ustr ''pk'' then Inr (ordered d c_id qs)
         else Inl FieldError)"

definition Product_order_by :: "pystr \<Rightarrow> product list \<Rightarrow> error + product list" where
  "Product_order_by item qs =
     (let d = descending item; f = field_name item
      in if f = ustr ''name'' then Inr (ordered d p_name qs)
         else if f = ustr ''price'' then Inr (ordered d p_price qs)
         else if f = ustr ''stock'' then Inr (ordered d p_stock qs)
         else if f = ustr ''id'' \<or> f = ustr ''pk'' then Inr (ordered d p_id qs)
         else Inl FieldError)"

definition Order_order_by :: "pystr \<Rightarrow> order list \<Rightarrow> error + order list" where
  "Order_order_by item qs =
     (let d = descending item; f = field_name item
      in if f = ustr ''total_amount'' then Inr (ordered d o_total_amount qs)
         else if f = ustr ''order_date'' then Inr (ordered d o_order_date qs)
         else if f = ustr ''id'' \<or> f = ustr ''pk'' then Inr (ordered d o_id qs)
         else Inl FieldError)"

text \<open>The three resolvers; \<^verbatim>\<open>order_by=None\<close> when the argument is absent.\<close>

definition resolve_all_customers :: "db \<Rightarrow> pystr option \<Rightarrow> error + customer list" where
  "resolve_all_customers st order_by =
     (let qs = customers st
      in case order_by of None \<Rightarrow> Inr qs
         | Some item \<Rightarrow>
             if item \<in> set ALLOWED_CUSTOMER_ORDER_FIELDS then Customer_order_by item qs
             else Inr qs)"

definition resolve_all_products :: "db \<Rightarrow> pystr option \<Rightarrow> error + product list" where
  "resolve_all_products st order_by =
     (let qs = products st
      in case order_by of None \<Rightarrow> Inr qs
         | Some item \<Rightarrow>
             if item \<in> set ALLOWED_PRODUCT_ORDER_FIELDS then Product_order_by item qs
             else Inr qs)"

definition resolve_all_orders :: "db \<Rightarrow> pystr option \<Rightarrow> error + order list" where
  "resolve_all_orders st order_by =
     (let qs = rev (remdups (rev (orders st)))
      in case order_by of None \<Rightarrow> Inr qs
         | Some item \<Rightarrow>
             if item \<in> set ALLOWED_ORDER_ORDER_FIELDS then Order_order_by item qs
             else Inr qs)"

section \<open>Sample stores\<close>

definition db_empty :: db where
  "db_empty = \<lparr>customers = [], products = [], orders = [], order_products = {},
                customer_seq = 1, order_seq = 1, clock = 100\<rparr>"

definition alice :: customer where
  "alice = \<lparr>c_id = 1, c_name = ustr ''Alice'', c_email = ustr ''alice@example.com'',
            c_phone = Some (ustr ''+123456789''), c_created_at = 7\<rparr>"

text \<open>One customer and two products, priced 10.00 and 5.50.\<close>

definition db_shop :: db where
  "db_shop = \<lparr>customers = [alice],
               products = [\<lparr>p_id = 1, p_name = ustr ''Laptop'', p_price = 1000, p_stock = 10\<rparr>,
                           \<lparr>p_id = 2, p_name = ustr ''Phone'', p_price = 550, p_stock = 20\<rparr>],
               orders = [], order_products = {},
               customer_seq = 2, order_seq = 1, clock = 100\<rparr>"

definition bob :: customer where
  "bob = \<lparr>c_id = 2, c_name = ustr ''Bob'', c_email = ustr ''bob@example.com'',
          c_phone = Some (ustr ''123-456-7890''), c_created_at = 99\<rparr>"




section \<open>The phone pattern, characterised\<close>










section \<open>\<^verbatim>\<open>CreateCustomer.mutate\<close>\<close>

text \<open>
  Claim C4, as the code has it. \<^verbatim>\<open>CreateCustomer.mutate\<close> has no handler around the
  insert. When the existence query and the phone check pass and a concurrent request
  has committed a customer with the same email before the insert runs, the
  uniqueness constraint rejects the insert and the \<open>IntegrityError\<close> leaves the
  resolver: no payload is returned. "Email already exists" comes from the existence
  query alone: a payload carries it exactly when that query found the email, and
  then it is the first message, no customer is returned and nothing is written.
\<close>

theorem CreateCustomer_conflict_propagates:
  "(\<not> Customer_email_exists st (in_email input) \<and> \<not> phone_rejected (in_phone input) \<and>
    (\<exists>c \<in> set concurrent. c_email c = in_email input) \<longrightarrow>
      CreateCustomer_mutate_with concurrent st input = Inl IntegrityError) \<and>
   (\<forall>st' p. CreateCustomer_mutate_with concurrent st input = Inr (st', p) \<longrightarrow>
      (''Email already exists'' \<in> set (cc_errors p) \<longleftrightarrow>
         Customer_email_exists st (in_email input))) \<and>
   (Customer_email_exists st (in_email input) \<longrightarrow>
      (\<exists>errs. CreateCustomer_mutate_with concurrent st input =
         Inr (st, \<lparr>cc_customer = None, cc_message = None,
                   cc_errors = ''Email already exists'' # errs\<rparr>)))"
proof (intro conjI impI allI)
  assume "\<not> Customer_email_exists st (in_email input) \<and> \<not> phone_rejected (in_phone input) \<and>
    (\<exists>c \<in> set concurrent. c_email c = in_email input)"
  then show "CreateCustomer_mutate_with concurrent st input = Inl IntegrityError"
    by (auto simp: CreateCustomer_mutate_with_def Customer_save_def Customer_email_exists_def)
next
  fix st' p
  assume "CreateCustomer_mutate_with concurrent st input = Inr (st', p)"
  then show "''Email already exists'' \<in> set (cc_errors p) \<longleftrightarrow>
         Customer_email_exists st (in_email input)"
    by (auto simp: CreateCustomer_mutate_with_def Let_def split: if_splits sum.splits)
next
  assume "Customer_email_exists st (in_email input)"
  then show "\<exists>errs. CreateCustomer_mutate_with concurrent st input =
         Inr (st, \<lparr>cc_customer = None, cc_message = None,
                   cc_errors = ''Email already exists'' # errs\<rparr>)"
    by (simp add: CreateCustomer_mutate_with_def)
qed

text \<open>
  Bob's row is committed by another request while Robert registers Bob's email; and
  Robert registering Alice's email, which is in the store, gets the message.
\<close>

theorem CreateCustomer_conflict_propagates_witness:
  "CreateCustomer_mutate_with [bob] db_shop
     \<lparr>in_name = ustr ''Robert'', in_email = ustr ''bob@example.com'', in_phone = Some []\<rparr> =
   Inl IntegrityError \<and>
   (\<exists>errs. CreateCustomer_mutate_with [bob] db_shop
     \<lparr>in_name = ustr ''Robert'', in_email = ustr ''alice@example.com'', in_phone = None\<rparr> =
     Inr (db_shop, \<lparr>cc_customer = None, cc_message = None,
                     cc_errors = ''Email already exists'' # errs\<rparr>))"
proof -
  let ?robert = "\<lparr>in_name = ustr ''Robert'', in_email = ustr ''bob@example.com'',
                  in_phone = Some []\<rparr>"
  let ?robert2 = "\<lparr>in_name = ustr ''Robert'', in_email = ustr ''alice@example.com'',
                   in_phone = None\<rparr>"
  have 1: "\<not> Customer_email_exists db_shop (in_email ?robert)" by code_simp
  have 2: "\<not> phone_rejected (in_phone ?robert)" by (simp add: phone_rejected_def)
  have 3: "\<exists>c \<in> set [bob]. c_email c = in_email ?robert" by (simp add: bob_def)
  have 4: "Customer_email_exists db_shop (in_email ?robert2)" by code_simp
  from CreateCustomer_conflict_propagates[of db_shop ?robert "[bob]"] 1 2 3
  have a: "CreateCustomer_mutate_with [bob] db_shop ?robert = Inl IntegrityError" by blast
  from CreateCustomer_conflict_propagates[of db_shop ?robert2 "[bob]"] 4
  have b: "\<exists>errs. CreateCustomer_mutate_with [bob] db_shop ?robert2 =
     Inr (db_shop, \<lparr>cc_customer = None, cc_message = None,
                     cc_errors = ''Email already exists'' # errs\<rparr>)" by blast
  from a b show ?thesis by blast
qed

text \<open>
  On the empty store the existence query finds nothing; Alice's row is committed in
  between; the call ends in \<open>IntegrityError\<close>, not in a payload with
  "Email already exists".
\<close>

theorem CreateCustomer_race_raises:
  "CreateCustomer_mutate_with [alice] db_empty
     \<lparr>in_name = ustr ''Alice'', in_email = ustr ''alice@example.com'', in_phone = None\<rparr> =
   Inl IntegrityError"
  by code_simp

text \<open>
  Claim C8 says that no mutation stores a customer whose name is the empty string.
  \<^verbatim>\<open>CreateCustomer.mutate\<close> never looks at the name (the bulk mutation does, see
  \<open>bulk_created_names_nonempty\<close> below): on the empty store the input with the name
  \<^verbatim>\<open>""\<close> is inserted and reported as created.
\<close>

theorem CreateCustomer_stores_empty_name:
  "CreateCustomer_mutate db_empty
     \<lparr>in_name = [], in_email = ustr ''bob@example.com'', in_phone = None\<rparr> =
     Inr (db_empty\<lparr>customers := [\<lparr>c_id = 1, c_name = [], c_email = ustr ''bob@example.com'',
                                   c_phone = Some [], c_created_at = 100\<rparr>],
                    customer_seq := 2\<rparr>,
          \<lparr>cc_customer = Some \<lparr>c_id = 1, c_name = [], c_email = ustr ''bob@example.com'',
                                 c_phone = Some [], c_created_at = 100\<rparr>,
            cc_message = Some ''Customer created'', cc_errors = []\<rparr>)"
  by code_simp

section \<open>\<^verbatim>\<open>BulkCreateCustomers.mutate\<close>\<close>

lemma row_errs_Nil_iff:
  "row_errs st idx item = [] \<longleftrightarrow>
     \<not> Customer_email_exists st (in_email item) \<and> \<not> phone_rejected (in_phone item) \<and>
     in_name item \<noteq> [] \<and> in_email item \<noteq> []"
  by (simp add: row_errs_def)


lemma row_errs_prefix:
  "e \<in> set (row_errs st idx item) \<Longrightarrow> take (length (''Row '' @ py_str (int idx) @ '': ''))
     e = ''Row '' @ py_str (int idx) @ '': ''"
  by (auto simp: row_errs_def split: if_splits)




text \<open>The created customers are the rows with no error, in input order.\<close>

lemma bulk_loop_created:
  "bulk_loop st idx items created errors = Inr (st', cs', es') \<Longrightarrow>
   \<exists>cs. cs' = created @ cs \<and>
     map (\<lambda>c. (c_name c, c_email c)) cs =
       map (\<lambda>p. (in_name (fst p), in_email (fst p)))
         (filter (\<lambda>p. snd p = []) (zip items (bulk_row_errs st idx items)))"
proof (induction items arbitrary: st idx created errors)
  case Nil
  then show ?case by simp
next
  case (Cons item rest)
  show ?case
  proof (cases "row_errs st idx item = []")
    case False
    with Cons.prems
    have "bulk_loop st (idx + 1) rest created (errors @ row_errs st idx item) = Inr (st', cs', es')"
      by (simp add: Let_def)
    from Cons.IH[OF this] False show ?thesis by (simp add: Let_def)
  next
    case True
    then have ne: "\<not> Customer_email_exists st (in_email item)"
      by (simp add: row_errs_Nil_iff)
    let ?ins = "Customer_insert st (in_name item) (in_email item)
                  (Some (phone_or_empty (in_phone item)))"
    have c: "c_name (snd ?ins) = in_name item" "c_email (snd ?ins) = in_email item"
      by (simp_all add: Customer_insert_def Let_def)
    from Cons.prems True ne
    have "bulk_loop (fst ?ins) (idx + 1) rest (created @ [snd ?ins]) errors = Inr (st', cs', es')"
      by (simp add: Let_def Customer_save_def split_beta)
    from Cons.IH[OF this] obtain cs where cs: "cs' = (created @ [snd ?ins]) @ cs"
      "map (\<lambda>c. (c_name c, c_email c)) cs =
       map (\<lambda>p. (in_name (fst p), in_email (fst p)))
         (filter (\<lambda>p. snd p = []) (zip rest (bulk_row_errs (fst ?ins) (idx + 1) rest)))"
      by blast
    show ?thesis using cs True c
      by (intro exI[of _ "snd ?ins # cs"]) (simp add: Let_def)
  qed
qed





text \<open>Every row that is written has a name: the loop tests \<^verbatim>\<open>not item.name\<close>.\<close>

lemma zip_bulk_row_errs:
  "(item, e) \<in> set (zip items (bulk_row_errs st idx items)) \<Longrightarrow>
     \<exists>st' idx'. e = row_errs st' idx' item"
proof (induction items arbitrary: st idx)
  case Nil
  then show ?case by simp
next
  case (Cons a rest)
  let ?st1 = "if row_errs st idx a \<noteq> [] then st
     else fst (Customer_insert st (in_name a) (in_email a) (Some (phone_or_empty (in_phone a))))"
  from Cons.prems
  have "(item, e) = (a, row_errs st idx a) \<or>
        (item, e) \<in> set (zip rest (bulk_row_errs ?st1 (idx + 1) rest))"
    by (simp add: Let_def)
  then show ?case
  proof
    assume "(item, e) = (a, row_errs st idx a)"
    then have "e = row_errs st idx item" by simp
    then show ?thesis by blast
  next
    assume "(item, e) \<in> set (zip rest (bulk_row_errs ?st1 (idx + 1) rest))"
    from Cons.IH[OF this] show ?thesis .
  qed
qed

lemma bulk_created_names_nonempty:
  assumes "BulkCreateCustomers_mutate st input = Inr (st', p)"
  shows "\<forall>c \<in> set (bulk_customers p). c_name c \<noteq> []"
proof -
  from assms obtain cs es where loop: "bulk_loop st 1 input [] [] = Inr (st', cs, es)"
    and p: "bulk_customers p = cs"
    by (auto simp: BulkCreateCustomers_mutate_def split: sum.splits)
  let ?rows = "filter (\<lambda>p. snd p = []) (zip input (bulk_row_errs st 1 input))"
  from bulk_loop_created[OF loop]
  have names: "map c_name cs = map (\<lambda>p. in_name (fst p)) ?rows"
  proof -
    from bulk_loop_created[OF loop]
    have "map (\<lambda>c. (c_name c, c_email c)) cs = map (\<lambda>p. (in_name (fst p), in_email (fst p))) ?rows"
      by simp
    then have "map fst (map (\<lambda>c. (c_name c, c_email c)) cs) =
               map fst (map (\<lambda>p. (in_name (fst p), in_email (fst p))) ?rows)"
      by simp
    then show ?thesis by (simp add: comp_def)
  qed
  have "\<forall>r \<in> set ?rows. in_name (fst r) \<noteq> []"
  proof
    fix r assume r: "r \<in> set ?rows"
    then have mem: "r \<in> set (zip input (bulk_row_errs st 1 input))" and e: "snd r = []"
      by simp_all
    from mem have "(fst r, snd r) \<in> set (zip input (bulk_row_errs st 1 input))"
      by (simp only: prod.collapse)
    from zip_bulk_row_errs[OF this] e
    obtain st1 idx1 where "row_errs st1 idx1 (fst r) = []" by metis
    then show "in_name (fst r) \<noteq> []" by (simp add: row_errs_Nil_iff)
  qed
  then have "\<forall>n \<in> set (map (\<lambda>p. in_name (fst p)) ?rows). n \<noteq> []" by auto
  with names have "\<forall>n \<in> set (map c_name cs). n \<noteq> []" by simp
  then show ?thesis using p by auto
qed




section \<open>\<^verbatim>\<open>CreateOrder.mutate\<close>\<close>

lemma missing_after_filter:
  "set ids - set (map p_id (filter (\<lambda>p. p_id p \<in> set ids) ps)) = set ids - p_id ` set ps"
  by auto

text \<open>
  \<^verbatim>\<open>", ".join(xs)\<close> puts the separator in front of every element but the first, and
  the digits of \<^verbatim>\<open>str(n)\<close> read back as \<open>n\<close>.
\<close>

lemma join_Cons: "join sep (x # xs) = x @ concat (map (\<lambda>y. sep @ y) xs)"
  by (induction xs arbitrary: x) simp_all

lemma digits_nat_value:
  "foldl (\<lambda>a c. 10 * a + (of_char c - 48)) 0 (digits_nat n) = n"
proof (induction n rule: digits_nat.induct)
  case (1 n)
  show ?case
  proof (cases "n < 10")
    case True
    then show ?thesis by (simp add: digits_nat.simps[of n])
  next
    case False
    then have "n mod 10 < 10" by simp
    with False "1.IH" show ?thesis by (simp add: digits_nat.simps[of n])
  qed
qed




text \<open>A reference that \<^verbatim>\<open>int\<close> rejects makes the whole call raise.\<close>

lemma map_int_malformed:
  "\<exists>r \<in> set product_ids. py_int r = None \<Longrightarrow> map_int product_ids = Inl ValueError"
proof (induction product_ids)
  case Nil
  then show ?case by simp
next
  case (Cons x xs)
  show ?case
  proof (cases "py_int x")
    case None
    then show ?thesis by simp
  next
    case (Some i)
    with Cons.prems have "\<exists>r \<in> set xs. py_int r = None" by auto
    from Cons.IH[OF this] Some show ?thesis by simp
  qed
qed

lemma CreateOrder_mutate_malformed_raises:
  assumes "Customer_objects_get st customer_id = Inr cust"
    and "\<exists>r \<in> set product_ids. py_int r = None"
  shows "CreateOrder_mutate st customer_id product_ids order_date = Inl ValueError"
proof -
  from assms(2) have "product_ids \<noteq> []" by auto
  moreover from assms(2) have "map_int product_ids = Inl ValueError" by (rule map_int_malformed)
  ultimately show ?thesis using assms(1)
    by (simp add: CreateOrder_mutate_def Product_filter_pk_in_def)
qed

text \<open>
  Claim C6 says that a malformed product reference is reported in \<^verbatim>\<open>errors\<close> and that
  the caller sees no exception. The conversions of lines 160 and 161 stand outside
  any \<^verbatim>\<open>try\<close>: for the reference \<^verbatim>\<open>abc\<close> the \<open>ValueError\<close> leaves the resolver.
\<close>

theorem CreateOrder_malformed_product_raises:
  "CreateOrder_mutate db_shop (ustr ''1'') [ustr ''abc''] None = Inl ValueError"
  by code_simp

text \<open>
  The insert of line 170 goes through \<^verbatim>\<open>Order.save\<close>, whose instance has no key yet,
  so \<^verbatim>\<open>self.products.all()\<close> raises: no call gets past that line.
\<close>

lemma Order_objects_create_raises: "Order_objects_create st cust d = Inl ValueError"
  by (simp add: Order_objects_create_def Order_save_def Order_products_all_def
      Order_products_manager_def)

lemma CreateOrder_atomic_raises: "CreateOrder_atomic st cust ps d = Inl ValueError"
  by (simp add: CreateOrder_atomic_def Order_objects_create_raises)

lemma CreateOrder_mutate_resolved_raises:
  assumes "Customer_objects_get st customer_id = Inr cust"
    and "product_ids \<noteq> []"
    and "map_int product_ids = Inr ids"
    and "list_all sqlite_integer ids"
    and "length (remdups ids) \<le> sqlite_max_variable_number"
    and "set ids \<subseteq> p_id ` set (products st)"
  shows "CreateOrder_mutate st customer_id product_ids order_date = Inl ValueError"
  using assms
  by (simp add: CreateOrder_mutate_def Product_filter_pk_in_def missing_after_filter
      CreateOrder_atomic_raises del: set_map)

lemma CreateOrder_mutate_no_order:
  "CreateOrder_mutate st customer_id product_ids order_date = Inr (st', p) \<Longrightarrow>
     co_order p = None \<and> st' = st"
  by (auto simp: CreateOrder_mutate_def CreateOrder_atomic_raises Let_def
      split: sum.splits if_splits)

text \<open>
  What lines 171 to 175 do once an order row with a key exists: one association row
  per distinct product, and the exact sum of the prices as the total, on the
  instance and on the row.
\<close>

lemma CreateOrder_after_create_total:
  assumes "o_id ord = Some i" and "i \<noteq> 0" and "\<exists>r \<in> set (orders st). o_id r = Some i"
  shows "\<exists>st'. CreateOrder_after_create st ord ps =
            Inr (st', ord\<lparr>o_total_amount := sum_list (map p_price ps)\<rparr>) \<and>
          {r \<in> order_products st'. fst r = i} = (\<lambda>p. (i, p_id p)) ` set ps \<and>
          (\<forall>r \<in> set (orders st'). o_id r = Some i \<longrightarrow>
             o_total_amount r = sum_list (map p_price ps))"
  using assms
  by (auto simp: CreateOrder_after_create_def Order_products_set_def Order_products_manager_def
      Order_save_def Model_save_def)

text \<open>The fetch of line 160 yields each product once, however often its id is given.\<close>

lemma Product_filter_pk_in_distinct:
  "map_int product_ids = Inr ids \<Longrightarrow> list_all sqlite_integer ids \<Longrightarrow>
     length (remdups ids) \<le> sqlite_max_variable_number \<Longrightarrow>
     distinct (map p_id (products st)) \<Longrightarrow>
     \<exists>ps. Product_filter_pk_in st product_ids = Inr ps \<and> distinct (map p_id ps) \<and>
          p_id ` set ps = set ids \<inter> p_id ` set (products st)"
  by (auto simp: Product_filter_pk_in_def distinct_map_filter)

text \<open>An insert stamps \<^verbatim>\<open>order_date\<close> from the clock, whatever the instance carries.\<close>

lemma Model_save_insert_order_date:
  "Model_save st self force_insert = Inr (st', row) \<Longrightarrow>
     o_order_date row = clock st \<and> row \<in> set (orders st')"
  by (auto simp: Model_save_def Let_def split: if_splits)

text \<open>
  Claim C1 says that an order for the products priced 10.00 and 5.50 is stored with
  the total 15.50. With customer 1 and both products in the store the call raises
  \<open>ValueError\<close> in \<^verbatim>\<open>Order.save\<close>; nothing is stored.
\<close>

theorem CreateOrder_two_products_raises:
  "CreateOrder_mutate db_shop (ustr ''1'') [ustr ''1'', ustr ''2''] None = Inl ValueError"
  by code_simp

text \<open>
  Claim C10 says that a call that names an existing product twice succeeds with one
  association row. The call raises \<open>ValueError\<close> in \<^verbatim>\<open>Order.save\<close>, as every call does
  that reaches line 170.
\<close>

theorem CreateOrder_duplicate_ids_raises:
  "CreateOrder_mutate db_shop (ustr ''1'') [ustr ''1'', ustr ''1''] None = Inl ValueError"
  by code_simp

text \<open>
  Claim C3 says that the order row carries the timestamp the caller supplies. With
  the timestamp 5 at clock time 100 the call raises \<open>ValueError\<close> in \<^verbatim>\<open>Order.save\<close>;
  and the inherited insert, given the instance with timestamp 5, writes the row with
  the clock time 100, since \<^verbatim>\<open>order_date\<close> is declared \<^verbatim>\<open>auto_now_add=True\<close>.
\<close>

theorem CreateOrder_order_date_not_stored:
  "CreateOrder_mutate db_shop (ustr ''1'') [ustr ''1''] (Some 5) = Inl ValueError \<and>
   Model_save db_shop \<lparr>o_id = None, o_customer = 1, o_total_amount = 0, o_order_date = 5\<rparr>
       force_insert =
     Inr (db_shop\<lparr>orders := [\<lparr>o_id = Some 1, o_customer = 1, o_total_amount = 0,
                                o_order_date = 100\<rparr>],
                   order_seq := 2\<rparr>,
          \<lparr>o_id = Some 1, o_customer = 1, o_total_amount = 0, o_order_date = 100\<rparr>)"
  by code_simp

section \<open>Ordering in the queries\<close>

lemma resolve_all_customers_not_allowed:
  "item \<notin> set ALLOWED_CUSTOMER_ORDER_FIELDS \<Longrightarrow>
     resolve_all_customers st (Some item) = Inr (customers st)"
  by (simp add: resolve_all_customers_def)

lemma resolve_all_products_not_allowed:
  "item \<notin> set ALLOWED_PRODUCT_ORDER_FIELDS \<Longrightarrow>
     resolve_all_products st (Some item) = Inr (products st)"
  by (simp add: resolve_all_products_def)

lemma resolve_all_orders_not_allowed:
  "item \<notin> set ALLOWED_ORDER_ORDER_FIELDS \<Longrightarrow>
     resolve_all_orders st (Some item) = Inr (rev (remdups (rev (orders st))))"
  by (simp add: resolve_all_orders_def)

lemma mset_ordered: "mset (ordered d key qs) = mset qs"
  by (simp add: ordered_def)

lemma sorted_ordered:
  "sorted (map key (if d then rev (ordered d key qs) else ordered d key qs))"
  by (simp add: ordered_def)

text \<open>Every allow-listed value of the customer query names a column of the model.\<close>

lemma resolve_all_customers_allowed:
  "item \<in> set ALLOWED_CUSTOMER_ORDER_FIELDS \<Longrightarrow>
     \<exists>rows. resolve_all_customers st (Some item) = Inr rows \<and> mset rows = mset (customers st)"
  by (auto simp: resolve_all_customers_def ALLOWED_CUSTOMER_ORDER_FIELDS_def Customer_order_by_def
      field_name_def descending_def mset_ordered ustr_def chr_hyphen_def)

lemma resolve_all_customers_by_name:
  "resolve_all_customers st (Some (ustr ''name'')) = Inr (sort_key c_name (customers st)) \<and>
   resolve_all_customers st (Some (ustr ''-name'')) =
     Inr (rev (sort_key c_name (rev (customers st))))"
  by (simp add: resolve_all_customers_def ALLOWED_CUSTOMER_ORDER_FIELDS_def Customer_order_by_def
      field_name_def descending_def ordered_def ustr_def chr_hyphen_def)

text \<open>
  Claim C9 says that an allow-listed \<^verbatim>\<open>orderBy\<close> value orders by that field. The
  allow-lists of the product query and of the order query contain \<^verbatim>\<open>created_at\<close> and
  \<^verbatim>\<open>-created_at\<close>, and \<^verbatim>\<open>models.py\<close> declares \<^verbatim>\<open>created_at\<close> on \<^verbatim>\<open>Customer\<close> only: for
  these values both queries end in \<open>FieldError\<close>, on every store.
\<close>

theorem resolve_created_at_FieldError:
  "resolve_all_products st (Some (ustr ''created_at'')) = Inl FieldError \<and>
   resolve_all_products st (Some (ustr ''-created_at'')) = Inl FieldError \<and>
   resolve_all_orders st (Some (ustr ''created_at'')) = Inl FieldError \<and>
   resolve_all_orders st (Some (ustr ''-created_at'')) = Inl FieldError"
  by (simp add: resolve_all_products_def resolve_all_orders_def ALLOWED_PRODUCT_ORDER_FIELDS_def
      ALLOWED_ORDER_ORDER_FIELDS_def Product_order_by_def Order_order_by_def field_name_def
      descending_def ustr_def chr_hyphen_def)


end
